theory Spec2Isabelle
  imports Main "HOL-Library.Word"
begin

section \<open>JavaScript values\<close>

text \<open>
  The server of this repository (\<^verbatim>\<open>backend/server.js\<close>, the second half of the source
  file) is glue between an HTTP endpoint, two chat-completion calls and one call to a
  flashcard service. Its behaviour is what it sends and logs, so each function of the source
  is modelled as a function that returns the list of its effects, in order, and its result.

  A JavaScript string is a sequence of 16-bit code units.
\<close>

type_synonym jstring = "16 word list"

definition js :: "string \<Rightarrow> jstring" where
  \<comment> \<open>An ASCII literal of the source as code units.\<close>
  "js s = map (\<lambda>c. of_nat (of_char c)) s"

text \<open>
  Every value that is not a string reaches this program out of \<^verbatim>\<open>JSON.parse\<close>: the request
  body (\<^verbatim>\<open>express.json()\<close>), the model's reply and the card service's reply. A number is
  kept as the JSON numeral it was read from; the IEEE double it denotes is not computed.
  An object is the list of its own properties.
\<close>

datatype jsval =
    JUndefined
  | JNull
  | JBool bool
  | JNum jstring
  | JStr jstring
  | JArr "jsval list"
  | JObj "(jstring \<times> jsval) list"

text \<open>
  Errors are values. \<open>EngineError\<close> is a \<^verbatim>\<open>TypeError\<close> or \<^verbatim>\<open>SyntaxError\<close> raised by the
  language itself, \<open>ErrorObject\<close> an \<^verbatim>\<open>Error\<close> instance with the given message (the two
  \<^verbatim>\<open>new Error(...)\<close> of the source, and the errors of the HTTP libraries), \<open>NonErrorValue\<close>
  a thrown value that is not an instance of \<^verbatim>\<open>Error\<close>.
\<close>

datatype engine_error =
    CannotDestructure jsval
  | CannotReadProperty jsval jstring
  | CannotConvertToPrimitive jsval
  | JSONSyntaxError jstring

datatype thrown =
    ErrorObject jstring
  | EngineError engine_error
  | NonErrorValue

text \<open>
  What the platform computes and this development leaves open: the two operations the
  program applies to numbers (\<^verbatim>\<open>ToBoolean\<close>, \<^verbatim>\<open>ToString\<close>), the text of the engine's own
  error messages, and \<^verbatim>\<open>Buffer.from(s).toString("base64")\<close>. Every theorem holds for every
  such platform.
\<close>

record runtime =
  number_truthy :: "jstring \<Rightarrow> bool"
  number_to_string :: "jstring \<Rightarrow> jstring"
  engine_message :: "engine_error \<Rightarrow> jstring"
  base64_utf8 :: "jstring \<Rightarrow> jstring"

definition js_truthy :: "runtime \<Rightarrow> jsval \<Rightarrow> bool" where
  \<comment> \<open>\<^verbatim>\<open>ToBoolean\<close>: what \<^verbatim>\<open>!v\<close> and \<^verbatim>\<open>if (v)\<close> test.\<close>
  "js_truthy rt v =
     (case v of
        JUndefined \<Rightarrow> False
      | JNull \<Rightarrow> False
      | JBool b \<Rightarrow> b
      | JNum n \<Rightarrow> number_truthy rt n
      | JStr s \<Rightarrow> s \<noteq> []
      | JArr xs \<Rightarrow> True
      | JObj kvs \<Rightarrow> True)"

text \<open>
  \<^verbatim>\<open>ToString\<close>, as string concatenation and template literals apply it. An array is joined
  with commas, \<^verbatim>\<open>undefined\<close> and \<^verbatim>\<open>null\<close> elements giving the empty string. A plain object
  gives \<^verbatim>\<open>[object Object]\<close> through \<^verbatim>\<open>Object.prototype.toString\<close>, unless it has an own
  property \<^verbatim>\<open>toString\<close>: that property, read out of JSON, is not callable, and the
  conversion throws a \<^verbatim>\<open>TypeError\<close>.
\<close>

fun js_to_string :: "runtime \<Rightarrow> jsval \<Rightarrow> thrown + jstring"
  and array_join :: "runtime \<Rightarrow> jsval list \<Rightarrow> thrown + jstring" where
  "js_to_string rt JUndefined = Inr (js ''undefined'')"
| "js_to_string rt JNull = Inr (js ''null'')"
| "js_to_string rt (JBool b) = Inr (if b then js ''true'' else js ''false'')"
| "js_to_string rt (JNum n) = Inr (number_to_string rt n)"
| "js_to_string rt (JStr s) = Inr s"
| "js_to_string rt (JArr xs) = array_join rt xs"
| "js_to_string rt (JObj kvs) =
     (if js ''toString'' \<in> fst ` set kvs
      then Inl (EngineError (CannotConvertToPrimitive (JObj kvs)))
      else Inr (js ''[object Object]''))"
| "array_join rt [] = Inr []"
| "array_join rt (x # xs) =
     (case (if x = JUndefined \<or> x = JNull then Inr [] else js_to_string rt x) of
        Inl e \<Rightarrow> Inl e
      | Inr s \<Rightarrow>
          (if xs = [] then Inr s
           else (case array_join rt xs of
                   Inl e \<Rightarrow> Inl e
                 | Inr r \<Rightarrow> Inr (s @ js '','' @ r))))"

definition js_plus :: "runtime \<Rightarrow> jstring \<Rightarrow> jsval \<Rightarrow> thrown + jstring" where
  \<comment> \<open>\<^verbatim>\<open>s + v\<close> with a string on the left: \<open>v\<close> is converted and appended.\<close>
  "js_plus rt s v = (case js_to_string rt v of Inl e \<Rightarrow> Inl e | Inr t \<Rightarrow> Inr (s @ t))"

definition js_get :: "jsval \<Rightarrow> jstring \<Rightarrow> thrown + jsval" where
  \<comment> \<open>\<^verbatim>\<open>v.k\<close>, for the names this program reads (\<^verbatim>\<open>message\<close>, \<^verbatim>\<open>description\<close>,
      \<^verbatim>\<open>solutionExplanation\<close>, \<^verbatim>\<open>code\<close>, \<^verbatim>\<open>id\<close>): none is a property of a built-in
      prototype, so only an object's own properties can answer.\<close>
  "js_get v k =
     (case v of
        JUndefined \<Rightarrow> Inl (EngineError (CannotReadProperty v k))
      | JNull \<Rightarrow> Inl (EngineError (CannotReadProperty v k))
      | JObj kvs \<Rightarrow> Inr (case map_of kvs k of None \<Rightarrow> JUndefined | Some x \<Rightarrow> x)
      | _ \<Rightarrow> Inr JUndefined)"

definition error_message :: "runtime \<Rightarrow> thrown \<Rightarrow> jstring" where
  \<comment> \<open>\<^verbatim>\<open>error instanceof Error ? error.message : "Unknown error occurred"\<close>\<close>
  "error_message rt e =
     (case e of
        ErrorObject m \<Rightarrow> m
      | EngineError x \<Rightarrow> engine_message rt x
      | NonErrorValue \<Rightarrow> js ''Unknown error occurred'')"

function decimal :: "nat \<Rightarrow> jstring" where
  \<comment> \<open>The decimal digits of a small non-negative integer (an HTTP status).\<close>
  "decimal n = (if n < 10 then [of_nat (48 + n)] else decimal (n div 10) @ [of_nat (48 + n mod 10)])"
  by pat_completeness auto
termination
  by (relation "measure (\<lambda>n. n)") auto

declare decimal.simps [simp del]

section \<open>Effects\<close>

record chat_request =
  chat_model :: jstring
  chat_messages :: "(jstring \<times> jstring) list"
  chat_response_format :: "jsval option"

record fetch_request =
  fetch_url :: jstring
  fetch_method :: jstring
  fetch_headers :: "(jstring \<times> jstring) list"
  fetch_json_body :: jsval

datatype console_level = ConsoleLog | ConsoleWarn | ConsoleError

datatype log_arg = LText jstring | LThrown thrown

text \<open>
  \<open>Response n v\<close> is \<^verbatim>\<open>res.status(n).json(v)\<close> (\<^verbatim>\<open>res.json(v)\<close> alone sends status 200);
  \<open>ChatCompletion r\<close> is a call of \<^verbatim>\<open>openai.chat.completions.create(r)\<close>; \<open>Fetch r\<close> is a call
  of \<^verbatim>\<open>fetch\<close>, its body the value handed to \<^verbatim>\<open>JSON.stringify\<close>; \<open>Console l xs\<close> is a call of
  \<^verbatim>\<open>console.log\<close>, \<^verbatim>\<open>console.warn\<close> or \<^verbatim>\<open>console.error\<close>.
\<close>

datatype event =
    Response nat jsval
  | ChatCompletion chat_request
  | Fetch fetch_request
  | Console console_level "log_arg list"

section \<open>JSON.parse\<close>

text \<open>
  \<^verbatim>\<open>JSON.parse\<close> on a string, after the JSON grammar: the text is cut into tokens, with
  blanks (tab, line feed, carriage return, space) between them, and one value must span all
  the tokens. A string holds any code unit from \<^verbatim>\<open>0x20\<close> on but the quote and the backslash,
  and the escapes of the grammar; a numeral is an optional minus sign, an integer part
  without a leading zero, an optional fraction and an optional exponent. A text outside the
  grammar is a \<^verbatim>\<open>SyntaxError\<close>.
\<close>

datatype token =
    TLBrace | TRBrace | TLBracket | TRBracket | TColon | TComma
  | TString jstring | TNumber jstring | TTrue | TFalse | TNull

definition is_ws :: "16 word \<Rightarrow> bool" where
  "is_ws c = (c = 0x09 \<or> c = 0x0A \<or> c = 0x0D \<or> c = 0x20)"

definition is_digit :: "16 word \<Rightarrow> bool" where
  "is_digit c = (0x30 \<le> c \<and> c \<le> 0x39)"

definition hex_value :: "16 word \<Rightarrow> nat option" where
  "hex_value c =
     (if 0x30 \<le> c \<and> c \<le> 0x39 then Some (unat c - 0x30)
      else if 0x41 \<le> c \<and> c \<le> 0x46 then Some (unat c - 0x41 + 10)
      else if 0x61 \<le> c \<and> c \<le> 0x66 then Some (unat c - 0x61 + 10)
      else None)"

definition hex4 :: "16 word \<Rightarrow> 16 word \<Rightarrow> 16 word \<Rightarrow> 16 word \<Rightarrow> 16 word option" where
  "hex4 a b c d =
     (case (hex_value a, hex_value b, hex_value c, hex_value d) of
        (Some w, Some x, Some y, Some z) \<Rightarrow> Some (of_nat (4096 * w + 256 * x + 16 * y + z))
      | _ \<Rightarrow> None)"

definition escape_char :: "16 word \<Rightarrow> 16 word option" where
  "escape_char e =
     (if e = 0x22 then Some 0x22
      else if e = 0x5C then Some 0x5C
      else if e = 0x2F then Some 0x2F
      else if e = 0x62 then Some 0x08
      else if e = 0x66 then Some 0x0C
      else if e = 0x6E then Some 0x0A
      else if e = 0x72 then Some 0x0D
      else if e = 0x74 then Some 0x09
      else None)"

fun lex_string :: "jstring \<Rightarrow> jstring \<Rightarrow> (jstring \<times> jstring) option"
  and lex_escape :: "jstring \<Rightarrow> jstring \<Rightarrow> (jstring \<times> jstring) option"
  and lex_unicode :: "jstring \<Rightarrow> jstring \<Rightarrow> (jstring \<times> jstring) option" where
  "lex_string acc [] = None"
| "lex_string acc (c # cs) =
     (if c = 0x22 then Some (acc, cs)
      else if c = 0x5C then lex_escape acc cs
      else if c < 0x20 then None
      else lex_string (acc @ [c]) cs)"
| "lex_escape acc [] = None"
| "lex_escape acc (e # cs) =
     (if e = 0x75 then lex_unicode acc cs
      else (case escape_char e of
              None \<Rightarrow> None
            | Some x \<Rightarrow> lex_string (acc @ [x]) cs))"
| "lex_unicode acc (h1 # h2 # h3 # h4 # cs) =
     (case hex4 h1 h2 h3 h4 of
        None \<Rightarrow> None
      | Some u \<Rightarrow> lex_string (acc @ [u]) cs)"
| "lex_unicode acc cs = None"

lemma lex_string_le:
  "lex_string acc cs = Some (s, rest) \<Longrightarrow> length rest < length cs"
  "lex_escape acc cs = Some (s, rest) \<Longrightarrow> length rest < length cs"
  "lex_unicode acc cs = Some (s, rest) \<Longrightarrow> length rest < length cs"
  by (induction acc cs and acc cs and acc cs rule: lex_string_lex_escape_lex_unicode.induct)
     (auto split: if_splits option.splits)

lemma lex_string_shorter:
  "lex_string acc cs = Some (s, rest) \<Longrightarrow> length rest < length cs"
  by (rule lex_string_le)

definition lex_digits :: "jstring \<Rightarrow> (jstring \<times> jstring) option" where
  \<comment> \<open>One or more digits.\<close>
  "lex_digits cs =
     (if takeWhile is_digit cs = [] then None
      else Some (takeWhile is_digit cs, dropWhile is_digit cs))"

definition lex_int :: "jstring \<Rightarrow> (jstring \<times> jstring) option" where
  \<comment> \<open>\<^verbatim>\<open>0\<close>, or a digit from 1 to 9 followed by digits.\<close>
  "lex_int cs =
     (case cs of
        [] \<Rightarrow> None
      | d # ds \<Rightarrow>
          (if d = 0x30 then Some ([d], ds)
           else if is_digit d then Some (d # takeWhile is_digit ds, dropWhile is_digit ds)
           else None))"

definition lex_frac :: "jstring \<Rightarrow> (jstring \<times> jstring) option" where
  "lex_frac cs =
     (case cs of
        d # ds \<Rightarrow>
          (if d = 0x2E then
             (case lex_digits ds of None \<Rightarrow> None | Some (f, rest) \<Rightarrow> Some (d # f, rest))
           else Some ([], cs))
      | [] \<Rightarrow> Some ([], cs))"

definition lex_exp :: "jstring \<Rightarrow> (jstring \<times> jstring) option" where
  "lex_exp cs =
     (case cs of
        e # ds \<Rightarrow>
          (if e = 0x65 \<or> e = 0x45 then
             (case ds of
                s # ds' \<Rightarrow>
                  (if s = 0x2B \<or> s = 0x2D then
                     (case lex_digits ds' of
                        None \<Rightarrow> None
                      | Some (x, rest) \<Rightarrow> Some (e # s # x, rest))
                   else (case lex_digits ds of
                           None \<Rightarrow> None
                         | Some (x, rest) \<Rightarrow> Some (e # x, rest)))
              | [] \<Rightarrow> None)
           else Some ([], cs))
      | [] \<Rightarrow> Some ([], cs))"

definition lex_number :: "jstring \<Rightarrow> (jstring \<times> jstring) option" where
  "lex_number cs =
     (let (sign, r0) = (case cs of c # r \<Rightarrow> if c = 0x2D then ([c], r) else ([], cs) | [] \<Rightarrow> ([], cs))
      in case lex_int r0 of
           None \<Rightarrow> None
         | Some (i, r1) \<Rightarrow>
             (case lex_frac r1 of
                None \<Rightarrow> None
              | Some (f, r2) \<Rightarrow>
                  (case lex_exp r2 of
                     None \<Rightarrow> None
                   | Some (x, r3) \<Rightarrow> Some (sign @ i @ f @ x, r3))))"

lemma lex_digits_shorter: "lex_digits cs = Some (ds, rest) \<Longrightarrow> length rest < length cs"
  by (cases cs)
     (auto simp: lex_digits_def split: if_splits intro: le_imp_less_Suc length_dropWhile_le)

lemma lex_int_shorter: "lex_int cs = Some (ds, rest) \<Longrightarrow> length rest < length cs"
  by (auto simp: lex_int_def split: list.splits if_splits
           intro: le_imp_less_Suc length_dropWhile_le)

lemma lex_frac_le: "lex_frac cs = Some (ds, rest) \<Longrightarrow> length rest \<le> length cs"
  by (auto simp: lex_frac_def split: list.splits if_splits option.splits
           dest!: lex_digits_shorter)

lemma lex_exp_le: "lex_exp cs = Some (ds, rest) \<Longrightarrow> length rest \<le> length cs"
  by (auto simp: lex_exp_def split: list.splits if_splits option.splits
           dest!: lex_digits_shorter)

lemma lex_number_shorter: "lex_number cs = Some (n, rest) \<Longrightarrow> length rest < length cs"
  by (auto simp: lex_number_def Let_def split: list.splits if_splits option.splits prod.splits
           dest!: lex_int_shorter lex_frac_le lex_exp_le)

function tokenize :: "jstring \<Rightarrow> token list option" where
  "tokenize [] = Some []"
| "tokenize (c # cs) =
     (if is_ws c then tokenize cs
      else if c = 0x7B then map_option (Cons TLBrace) (tokenize cs)
      else if c = 0x7D then map_option (Cons TRBrace) (tokenize cs)
      else if c = 0x5B then map_option (Cons TLBracket) (tokenize cs)
      else if c = 0x5D then map_option (Cons TRBracket) (tokenize cs)
      else if c = 0x3A then map_option (Cons TColon) (tokenize cs)
      else if c = 0x2C then map_option (Cons TComma) (tokenize cs)
      else if c = 0x22 then
        (case lex_string [] cs of
           None \<Rightarrow> None
         | Some (s, rest) \<Rightarrow> map_option (Cons (TString s)) (tokenize rest))
      else if c = 0x2D \<or> is_digit c then
        (case lex_number (c # cs) of
           None \<Rightarrow> None
         | Some (n, rest) \<Rightarrow> map_option (Cons (TNumber n)) (tokenize rest))
      else if take 4 (c # cs) = js ''true'' then map_option (Cons TTrue) (tokenize (drop 3 cs))
      else if take 5 (c # cs) = js ''false'' then map_option (Cons TFalse) (tokenize (drop 4 cs))
      else if take 4 (c # cs) = js ''null'' then map_option (Cons TNull) (tokenize (drop 3 cs))
      else None)"
  by pat_completeness auto
termination
  by (relation "measure length")
     (auto dest: lex_string_shorter lex_number_shorter)

text \<open>
  An object keeps one value for a name: a name that comes twice keeps its place and takes
  the later value.
\<close>

fun obj_put :: "(jstring \<times> jsval) list \<Rightarrow> jstring \<Rightarrow> jsval \<Rightarrow> (jstring \<times> jsval) list" where
  "obj_put [] k v = [(k, v)]"
| "obj_put ((k', v') # kvs) k v = (if k' = k then (k, v) # kvs else (k', v') # obj_put kvs k v)"

fun member_key :: "token list \<Rightarrow> (jstring \<times> token list) option" where
  "member_key (TString k # TColon # ts) = Some (k, ts)"
| "member_key ts = None"

lemma member_key_shorter: "member_key ts = Some (k, ts') \<Longrightarrow> length ts' < length ts"
  by (induction ts rule: member_key.induct) auto

text \<open>
  The values, by recursive descent over the tokens. Each function returns the value and the
  tokens left. The test \<open>length rest \<le> length ts\<close> before a function calls itself is there
  for the termination proof alone: \<open>parse_value_shorter\<close> below shows that it always holds.
\<close>

lemma take1_eq: "take (Suc 0) xs = [x] \<longleftrightarrow> (\<exists>ys. xs = x # ys)"
  by (cases xs) auto

function parse_value :: "token list \<Rightarrow> (jsval \<times> token list) option"
  and parse_elements :: "jsval list \<Rightarrow> token list \<Rightarrow> (jsval \<times> token list) option"
  and parse_members :: "(jstring \<times> jsval) list \<Rightarrow> token list \<Rightarrow> (jsval \<times> token list) option" where
  "parse_value [] = None"
| "parse_value (t # ts) =
     (case t of
        TNull \<Rightarrow> Some (JNull, ts)
      | TTrue \<Rightarrow> Some (JBool True, ts)
      | TFalse \<Rightarrow> Some (JBool False, ts)
      | TNumber n \<Rightarrow> Some (JNum n, ts)
      | TString s \<Rightarrow> Some (JStr s, ts)
      | TLBracket \<Rightarrow>
          (if take 1 ts = [TRBracket] then Some (JArr [], drop 1 ts)
           else parse_elements [] ts)
      | TLBrace \<Rightarrow>
          (if take 1 ts = [TRBrace] then Some (JObj [], drop 1 ts)
           else parse_members [] ts)
      | _ \<Rightarrow> None)"
| "parse_elements acc ts =
     (case parse_value ts of
        None \<Rightarrow> None
      | Some (v, rest) \<Rightarrow>
          (if take 1 rest = [TComma] then
             (if length rest \<le> length ts then parse_elements (acc @ [v]) (drop 1 rest)
              else None)
           else if take 1 rest = [TRBracket] then Some (JArr (acc @ [v]), drop 1 rest)
           else None))"
| "parse_members acc ts =
     (case member_key ts of
        None \<Rightarrow> None
      | Some (k, ts') \<Rightarrow>
          (case parse_value ts' of
             None \<Rightarrow> None
           | Some (v, rest) \<Rightarrow>
               (if take 1 rest = [TComma] then
                  (if length rest \<le> length ts then parse_members (obj_put acc k v) (drop 1 rest)
                   else None)
                else if take 1 rest = [TRBrace] then Some (JObj (obj_put acc k v), drop 1 rest)
                else None)))"
  by pat_completeness auto
termination
  by (relation "measure (\<lambda>x. case x of
                   Inl ts \<Rightarrow> 2 * length ts
                 | Inr (Inl (acc, ts)) \<Rightarrow> 2 * length ts + 1
                 | Inr (Inr (acc, ts)) \<Rightarrow> 2 * length ts + 1)")
     (auto dest: member_key_shorter simp: take1_eq)

declare parse_elements.simps [simp del] parse_members.simps [simp del]

definition JSON_parse :: "jstring \<Rightarrow> thrown + jsval" where
  "JSON_parse text =
     (case tokenize text of
        None \<Rightarrow> Inl (EngineError (JSONSyntaxError text))
      | Some ts \<Rightarrow>
          (case parse_value ts of
             Some (v, []) \<Rightarrow> Inr v
           | _ \<Rightarrow> Inl (EngineError (JSONSyntaxError text))))"

section \<open>The upstream services\<close>

text \<open>
  A chat completion as the SDK types it: \<^verbatim>\<open>choices\<close> is an array, a choice's \<^verbatim>\<open>message\<close> may
  be missing, and a message's \<^verbatim>\<open>content\<close> is a string or \<^verbatim>\<open>null\<close>.
\<close>

datatype chat_message = ChatMessage "jstring option"

datatype chat_choice = ChatChoice "chat_message option"

type_synonym chat_completion = "chat_choice list"

text \<open>
  What \<^verbatim>\<open>fetch\<close> resolves to: the status, and the body's text (or the error of reading it).
\<close>

record fetch_response =
  resp_status :: nat
  resp_body :: "thrown + jstring"

text \<open>
  One run of the endpoint meets one behaviour of the services: what each of the three calls
  settles to, if it is made, and which of the two chat completions settles first.
\<close>

record upstream =
  problem_reply :: "thrown + chat_completion"
  code_reply :: "thrown + chat_completion"
  code_settles_first :: bool
  mochi_reply :: "thrown + fetch_response"

text \<open>
  An \<^verbatim>\<open>async\<close> function returns a promise. The two functions that call the model either
  throw before their \<^verbatim>\<open>await\<close> (the promise is rejected when the function returns) or settle
  after the reply.
\<close>

datatype 'a promise =
    RejectedAtOnce thrown
  | AfterReply "thrown + 'a"

definition promise_all2 :: "bool \<Rightarrow> 'a promise \<Rightarrow> 'b promise \<Rightarrow> thrown + ('a \<times> 'b)" where
  \<comment> \<open>\<^verbatim>\<open>await Promise.all([p, q])\<close>: both values, or the rejection that comes first. A
      promise rejected at once comes before one that waits for a reply, and \<open>p\<close> before
      \<open>q\<close> when both are; of two that reject after their replies, \<open>q_first\<close> tells.\<close>
  "promise_all2 q_first p q =
     (case p of
        RejectedAtOnce e \<Rightarrow> Inl e
      | AfterReply x \<Rightarrow>
          (case q of
             RejectedAtOnce e \<Rightarrow> Inl e
           | AfterReply y \<Rightarrow>
               (case (x, y) of
                  (Inl e1, Inl e2) \<Rightarrow> Inl (if q_first then e2 else e1)
                | (Inl e1, Inr b) \<Rightarrow> Inl e1
                | (Inr a, Inl e2) \<Rightarrow> Inl e2
                | (Inr a, Inr b) \<Rightarrow> Inr (a, b))))"

section \<open>The server\<close>

definition manualJsonSchema :: jsval where
  "manualJsonSchema =
     JObj [(js ''name'', JStr (js ''code_solution_response'')),
           (js ''strict'', JBool True),
           (js ''schema'',
            JObj [(js ''type'', JStr (js ''object'')),
                  (js ''properties'',
                   JObj [(js ''solutionExplanation'',
                          JObj [(js ''type'', JStr (js ''string'')),
                                (js ''description'', JStr (js ''The solution and explanation text''))]),
                         (js ''code'',
                          JObj [(js ''type'', JStr (js ''string'')),
                                (js ''description'', JStr (js ''The code block portion only''))])]),
                  (js ''required'', JArr [JStr (js ''solutionExplanation''), JStr (js ''code'')]),
                  (js ''additionalProperties'', JBool False)])]"

definition first_content :: "chat_completion \<Rightarrow> jsval" where
  \<comment> \<open>\<^verbatim>\<open>response.choices[0]?.message?.content\<close>\<close>
  "first_content choices =
     (case choices of
        [] \<Rightarrow> JUndefined
      | ChatChoice None # _ \<Rightarrow> JUndefined
      | ChatChoice (Some (ChatMessage None)) # _ \<Rightarrow> JNull
      | ChatChoice (Some (ChatMessage (Some s))) # _ \<Rightarrow> JStr s)"

definition code_prompt :: jstring where
  "code_prompt = js ''Please separate the solution/explanation and the code in the following message: I want to be able to later paste the code in a markdown editor. For the explanation, keep it minimal. Only adjust my explanation for readability purposes. Don't add anything additional to the explanation.''"

definition problem_prompt :: jstring where
  "problem_prompt = js ''The following text is a description of a problem that is slightly misformatted. All that I need you to do is clean up the formatting of the text so I can paste it in a markdown editor. Put the examples and constraints in seperate markdown blocks (by seperate I mean split the examples into their own markdown blocks). There will be irrelevant text that comes up because I copy pasted the entire site. You can remove that text that seems like it was copy-pasted on accident. Just bold the title of the problem (don't use any # or header markdown things). DO NOT modify anything else including the actualy words themselves or anything else. JUST focus on formatting. Also if the contraint is seemingly a random number like 104 or 103 or something it could actually be 10^4 or 10^3. When I copy and paste the exponents are removed so that's why they appear like that.''"

definition generateCodeResponse ::
  "runtime \<Rightarrow> upstream \<Rightarrow> jsval \<Rightarrow> event list \<times> jsval promise" where
  "generateCodeResponse rt up message =
     (case js_plus rt code_prompt message of
        Inl e \<Rightarrow> ([], RejectedAtOnce e)
      | Inr text \<Rightarrow>
          ([ChatCompletion
              \<lparr>chat_model = js ''gpt-5-mini'',
               chat_messages = [(js ''user'', text)],
               chat_response_format =
                 Some (JObj [(js ''type'', JStr (js ''json_schema'')),
                             (js ''json_schema'', manualJsonSchema)])\<rparr>],
           AfterReply
             (case code_reply up of
                Inl e \<Rightarrow> Inl e
              | Inr response \<Rightarrow>
                  (let content = first_content response
                   in if \<not> js_truthy rt content
                      then Inl (ErrorObject (js ''No content returned''))
                      else (case js_to_string rt content of
                              Inl e \<Rightarrow> Inl e
                            | Inr s \<Rightarrow> JSON_parse s)))))"

definition generateProblemDescription ::
  "runtime \<Rightarrow> upstream \<Rightarrow> jsval \<Rightarrow> event list \<times> jsval promise" where
  "generateProblemDescription rt up description =
     (case js_plus rt problem_prompt description of
        Inl e \<Rightarrow> ([], RejectedAtOnce e)
      | Inr text \<Rightarrow>
          ([ChatCompletion
              \<lparr>chat_model = js ''gpt-5-mini'',
               chat_messages = [(js ''user'', text)],
               chat_response_format = None\<rparr>],
           AfterReply
             (case problem_reply up of
                Inl e \<Rightarrow> Inl e
              | Inr response \<Rightarrow> Inr (first_content response))))"

definition DECK_ID :: jstring where
  "DECK_ID = js ''QKtBzxLx''"

definition cardContent :: "runtime \<Rightarrow> jsval \<Rightarrow> jsval \<Rightarrow> jsval \<Rightarrow> thrown + jstring" where
  "cardContent rt problemDescription solutionExplanation codeSnippet =
     (case js_plus rt (js ''What is the key techinque to solve this problem?\<newline>'')
             problemDescription of
        Inl e \<Rightarrow> Inl e
      | Inr s1 \<Rightarrow>
          (case js_plus rt (s1 @ js ''\<newline>---\<newline>'') solutionExplanation of
             Inl e \<Rightarrow> Inl e
           | Inr s2 \<Rightarrow>
               (case js_plus rt (s2 @ js ''\<newline>'' @ js ''```python\<newline>'') codeSnippet of
                  Inl e \<Rightarrow> Inl e
                | Inr s3 \<Rightarrow> Inr (s3 @ js ''\<newline>```''))))"

definition response_ok :: "fetch_response \<Rightarrow> bool" where
  \<comment> \<open>\<^verbatim>\<open>response.ok\<close>: the status is in the range 200 to 299.\<close>
  "response_ok r = (200 \<le> resp_status r \<and> resp_status r \<le> 299)"

definition response_json :: "fetch_response \<Rightarrow> thrown + jsval" where
  \<comment> \<open>\<^verbatim>\<open>response.json()\<close>\<close>
  "response_json r = (case resp_body r of Inl e \<Rightarrow> Inl e | Inr s \<Rightarrow> JSON_parse s)"

definition createMochiCard ::
  "runtime \<Rightarrow> jstring option \<Rightarrow> upstream \<Rightarrow> jsval \<Rightarrow> jsval \<Rightarrow> jsval
     \<Rightarrow> event list \<times> (thrown + jsval)" where
  \<comment> \<open>\<open>MOCHI_API_KEY\<close> is \<^verbatim>\<open>process.env.MOCHI_API_KEY\<close>: a string, or \<open>None\<close> when the
      variable is not set. \<^verbatim>\<open>!MOCHI_API_KEY\<close> holds of \<^verbatim>\<open>undefined\<close> and of the empty string.\<close>
  "createMochiCard rt MOCHI_API_KEY up problemDescription solutionExplanation codeSnippet =
     (case (case MOCHI_API_KEY of None \<Rightarrow> None | Some k \<Rightarrow> if k = [] then None else Some k) of
        None \<Rightarrow>
          ([Console ConsoleWarn
              [LText (js ''Skipping Mochi card creation: MOCHI_API_KEY is missing.'')]],
           Inr JNull)
      | Some key \<Rightarrow>
          (case cardContent rt problemDescription solutionExplanation codeSnippet of
             Inl e \<Rightarrow> ([], Inl e)
           | Inr content \<Rightarrow>
               ([Fetch
                   \<lparr>fetch_url = js ''https://app.mochi.cards/api/cards/'',
                    fetch_method = js ''POST'',
                    fetch_headers =
                      [(js ''Content-Type'', js ''application/json''),
                       (js ''Authorization'', js ''Basic '' @ base64_utf8 rt (key @ js '':''))],
                    fetch_json_body =
                      JObj [(js ''content'', JStr content),
                            (js ''deck-id'', JStr DECK_ID),
                            (js ''archived?'', JBool False)]\<rparr>],
                (case mochi_reply up of
                   Inl e \<Rightarrow> Inl e
                 | Inr response \<Rightarrow>
                     (if \<not> response_ok response then
                        (case resp_body response of
                           Inl e \<Rightarrow> Inl e
                         | Inr errorText \<Rightarrow>
                             Inl (ErrorObject
                                    (js ''Mochi API Error '' @ decimal (resp_status response)
                                       @ js '': '' @ errorText)))
                      else response_json response)))))"

definition background_catch :: "runtime \<Rightarrow> thrown \<Rightarrow> event list" where
  \<comment> \<open>The \<^verbatim>\<open>catch\<close> block of the background task.\<close>
  "background_catch rt error =
     [Console ConsoleError [LText (js ''Error in background processing:''), LThrown error],
      Console ConsoleError [LText (js ''Error details:''), LText (error_message rt error)]]"

definition background_task ::
  "runtime \<Rightarrow> jstring option \<Rightarrow> upstream \<Rightarrow> jsval \<Rightarrow> jsval \<Rightarrow> event list" where
  \<comment> \<open>The \<^verbatim>\<open>(async () => { ... })()\<close> of the endpoint. Both calls of the model are made
      before either is awaited.\<close>
  "background_task rt MOCHI_API_KEY up message description =
     (let (ev1, p1) = generateProblemDescription rt up description;
          (ev2, p2) = generateCodeResponse rt up message
      in ev1 @ ev2 @
         (case promise_all2 (code_settles_first up) p1 p2 of
            Inl error \<Rightarrow> background_catch rt error
          | Inr (problemDescription, solutionExplanationAndCode) \<Rightarrow>
              (case js_get solutionExplanationAndCode (js ''solutionExplanation'') of
                 Inl error \<Rightarrow> background_catch rt error
               | Inr solutionExplanation \<Rightarrow>
                   (case js_get solutionExplanationAndCode (js ''code'') of
                      Inl error \<Rightarrow> background_catch rt error
                    | Inr code \<Rightarrow>
                        Console ConsoleLog [LText (js ''Creating Mochi card...'')] #
                        (let (ev3, r) =
                               createMochiCard rt MOCHI_API_KEY up
                                 problemDescription solutionExplanation code
                         in ev3 @
                            (case r of
                               Inl error \<Rightarrow> background_catch rt error
                             | Inr mochiCard \<Rightarrow>
                                 (if js_truthy rt mochiCard then
                                    (case js_get mochiCard (js ''id'') of
                                       Inl error \<Rightarrow> background_catch rt error
                                     | Inr card_id \<Rightarrow>
                                         (case js_plus rt
                                                 (0x2705 # js '' Card created in Mochi: '')
                                                 card_id of
                                            Inl error \<Rightarrow> background_catch rt error
                                          | Inr line \<Rightarrow>
                                              [Console ConsoleLog [LText line],
                                               Console ConsoleLog
                                                 [LText (0x2705 #
                                                    js '' Processing completed successfully'')]]))
                                  else
                                    [Console ConsoleLog
                                       [LText (0x2705 #
                                          js '' Processing completed successfully'')]])))))))"

definition destructure_body :: "jsval \<Rightarrow> thrown + (jsval \<times> jsval)" where
  \<comment> \<open>\<^verbatim>\<open>const { message, description } = req.body\<close>\<close>
  "destructure_body body =
     (if body = JUndefined \<or> body = JNull then Inl (EngineError (CannotDestructure body))
      else (case js_get body (js ''message'') of
              Inl e \<Rightarrow> Inl e
            | Inr message \<Rightarrow>
                (case js_get body (js ''description'') of
                   Inl e \<Rightarrow> Inl e
                 | Inr description \<Rightarrow> Inr (message, description))))"

definition post_api_data :: "runtime \<Rightarrow> jstring option \<Rightarrow> upstream \<Rightarrow> jsval \<Rightarrow> event list" where
  \<comment> \<open>The handler of \<^verbatim>\<open>app.post("/api/data", ...)\<close>, applied to \<^verbatim>\<open>req.body\<close>: everything
      the request causes, in the order in which it happens.\<close>
  "post_api_data rt MOCHI_API_KEY up body =
     (case destructure_body body of
        Inl error \<Rightarrow>
          [Console ConsoleError [LText (js ''Error handling request:''), LThrown error],
           Response 500
             (JObj [(js ''error'', JStr (js ''Failed to submit request'')),
                    (js ''details'', JStr (error_message rt error))])]
      | Inr (message, description) \<Rightarrow>
          (if \<not> js_truthy rt message \<or> \<not> js_truthy rt description then
             [Response 400 (JObj [(js ''error'', JStr (js ''Message is required''))])]
           else
             Response 200
               (JObj [(js ''status'', JStr (js ''submitted'')),
                      (js ''message'', JStr (js ''Now processing''))]) #
             background_task rt MOCHI_API_KEY up message description))"

section \<open>Observing a run\<close>

text \<open>
  The outbound calls of a run are its \<open>ChatCompletion\<close> and \<open>Fetch\<close> events.
\<close>

fun is_response :: "event \<Rightarrow> bool" where
  "is_response (Response n v) = True"
| "is_response e = False"

fun is_chat :: "event \<Rightarrow> bool" where
  "is_chat (ChatCompletion r) = True"
| "is_chat e = False"

fun is_fetch :: "event \<Rightarrow> bool" where
  "is_fetch (Fetch r) = True"
| "is_fetch e = False"

definition is_outbound :: "event \<Rightarrow> bool" where
  "is_outbound e = (is_chat e \<or> is_fetch e)"

text \<open>
  A platform and a behaviour of the services for the worked examples below. The examples
  hold no numbers and raise no engine error, so what \<open>plain_runtime\<close> answers for those
  is never asked.
\<close>

definition plain_runtime :: runtime where
  "plain_runtime =
     \<lparr>number_truthy = (\<lambda>n. True),
      number_to_string = (\<lambda>n. n),
      engine_message = (\<lambda>e. js ''TypeError''),
      base64_utf8 = (\<lambda>s. s)\<rparr>"

text \<open>The card text, as the specification describes it.\<close>

definition card_template :: "jstring \<Rightarrow> jstring \<Rightarrow> jstring \<Rightarrow> jstring" where
  "card_template problem explanation code =
     js ''What is the key techinque to solve this problem?\<newline>'' @ problem @
     js ''\<newline>---\<newline>'' @ explanation @
     js ''\<newline>'' @ js ''```python\<newline>'' @ code @ js ''\<newline>```''"

definition sample_upstream :: upstream where
  \<open>sample_upstream =
     \<lparr>problem_reply = Inr [ChatChoice (Some (ChatMessage (Some (js ''**Two Sum**''))))],
      code_reply =
        Inr [ChatChoice (Some (ChatMessage (Some
               (js ''{"solutionExplanation":"Use a hash map","code":"return []"}''))))],
      code_settles_first = False,
      mochi_reply = Inr \<lparr>resp_status = 200, resp_body = Inr (js ''{"id":"abc"}'')\<rparr>\<rparr>\<close>

fun rejected :: "'a promise \<Rightarrow> bool" where
  "rejected (RejectedAtOnce e) = True"
| "rejected (AfterReply (Inl e)) = True"
| "rejected (AfterReply (Inr v)) = False"

section \<open>Basic facts\<close>

lemma of_char_bound: "(of_char x :: nat) < 65536"
proof -
  have "(of_char x :: nat) mod 256 < 256" by (rule mod_less_divisor) simp
  then have "(of_char x :: nat) < 256" by (simp only: of_char_mod_256)
  then show ?thesis by (rule less_trans) simp
qed

lemma js_char_inj: "(of_nat (of_char c) :: 16 word) = of_nat (of_char d) \<Longrightarrow> c = d"
proof -
  assume "(of_nat (of_char c) :: 16 word) = of_nat (of_char d)"
  then have "take_bit 16 (of_char c :: nat) = take_bit 16 (of_char d :: nat)"
    by (simp only: word_of_nat_eq_iff len_bit0 len_num1 mult_1_right mult_numeral_left_semiring_numeral
          numeral_times_numeral semiring_norm)
  moreover have "take_bit 16 (of_char x :: nat) = of_char x" for x
    by (rule take_bit_nat_eq_self) (use of_char_bound[of x] in simp)
  ultimately have "(of_char c :: nat) = of_char d" by (simp only:)
  then show "c = d" by (simp only: of_char_eq_iff)
qed

lemma js_eq_iff [simp]: "js a = js b \<longleftrightarrow> a = b"
proof
  show "a = b" if "js a = js b"
    using that
  proof (induction a arbitrary: b)
    case Nil
    then show ?case by (simp add: js_def)
  next
    case (Cons x xs)
    then obtain y ys where b: "b = y # ys" by (cases b) (auto simp: js_def)
    from Cons.prems b have "(of_nat (of_char x) :: 16 word) = of_nat (of_char y)" "js xs = js ys"
      by (simp_all add: js_def)
    then show ?case using b Cons.IH js_char_inj by blast
  qed
qed simp

lemma js_Nil [simp]: "js [] = []" "js s = [] \<longleftrightarrow> s = []" "[] = js s \<longleftrightarrow> s = []"
  by (auto simp: js_def)

lemma js_append: "js (a @ b) = js a @ js b"
  by (simp add: js_def)

text \<open>
  The parser always consumes input, so the two length tests inside \<open>parse_elements\<close> and
  \<open>parse_members\<close>, which make the recursion terminate, never reject a text.
\<close>

lemma parse_value_shorter:
  "parse_value ts = Some (v, rest) \<Longrightarrow> length rest < length ts"
  "parse_elements acc ts = Some (v, rest) \<Longrightarrow> length rest < length ts"
  "parse_members kvs ts = Some (v, rest) \<Longrightarrow> length rest < length ts"
proof (induction ts and acc ts and kvs ts arbitrary: v rest and v rest and v rest
       rule: parse_value_parse_elements_parse_members.induct)
  case 1
  then show ?case by simp
next
  case (2 t ts)
  show ?case
  proof (cases t)
    case TLBracket
    then show ?thesis using "2.prems" "2.IH"(2)[of v rest]
      by (auto simp: take1_eq split: if_splits)
  next
    case TLBrace
    then show ?thesis using "2.prems" "2.IH"(1)[of v rest]
      by (auto simp: take1_eq split: if_splits)
  qed (use "2.prems" in auto)
next
  case (3 acc ts)
  from "3.prems" obtain v0 rest0 where pv: "parse_value ts = Some (v0, rest0)"
    by (subst (asm) parse_elements.simps) (auto split: option.splits)
  have l0: "length rest0 < length ts" using "3.IH"(1)[OF pv] .
  show ?case
  proof (cases "take 1 rest0 = [TComma]")
    case True
    have "parse_elements (acc @ [v0]) (drop 1 rest0) = Some (v, rest)"
      using "3.prems" pv True l0 by (subst (asm) parse_elements.simps) simp
    from "3.IH"(2)[OF pv refl True _ this] l0 show ?thesis by simp
  next
    case False
    then show ?thesis using "3.prems" pv l0
      by (subst (asm) parse_elements.simps) (auto split: if_splits)
  qed
next
  case (4 acc ts)
  from "4.prems" obtain k ts' where mk: "member_key ts = Some (k, ts')"
    by (subst (asm) parse_members.simps) (auto split: option.splits)
  from "4.prems" mk obtain v0 rest0 where pv: "parse_value ts' = Some (v0, rest0)"
    by (subst (asm) parse_members.simps) (auto split: option.splits)
  have l0: "length rest0 < length ts"
    using "4.IH"(1)[OF mk refl pv] member_key_shorter[OF mk] by simp
  show ?case
  proof (cases "take 1 rest0 = [TComma]")
    case True
    have "parse_members (obj_put acc k v0) (drop 1 rest0) = Some (v, rest)"
      using "4.prems" mk pv True l0 by (subst (asm) parse_members.simps) simp
    from "4.IH"(2)[OF mk refl pv refl True _ this] l0 show ?thesis by simp
  next
    case False
    then show ?thesis using "4.prems" mk pv l0
      by (subst (asm) parse_members.simps) (auto split: if_splits)
  qed
qed

lemma JSON_parse_examples:
  \<open>JSON_parse (js '' [1, -2.5e+3, true, null, "a"] '') =
     Inr (JArr [JNum (js ''1''), JNum (js ''-2.5e+3''), JBool True, JNull, JStr (js ''a'')])\<close>
  \<open>JSON_parse (js ''{"a":1,"b":{},"a":2}'') =
     Inr (JObj [(js ''a'', JNum (js ''2'')), (js ''b'', JObj [])])\<close>
  \<open>JSON_parse (js ''[1,]'') = Inl (EngineError (JSONSyntaxError (js ''[1,]'')))\<close>
  \<open>JSON_parse (js ''01'') = Inl (EngineError (JSONSyntaxError (js ''01'')))\<close>
  \<open>JSON_parse (js ''{"a" 1}'') = Inl (EngineError (JSONSyntaxError (js ''{"a" 1}'')))\<close>
  \<open>JSON_parse [] = Inl (EngineError (JSONSyntaxError []))\<close>
  by code_simp+

lemma promise_all2_rejected:
  "rejected p \<or> rejected q \<Longrightarrow> \<exists>e. promise_all2 f p q = Inl e"
  by (cases p; cases q) (auto simp: promise_all2_def split: sum.splits)

lemma generateProblemDescription_events:
  assumes "generateProblemDescription rt up d = (ev, p)"
  shows "filter is_fetch ev = []" and "filter is_response ev = []"
  using assms by (auto simp: generateProblemDescription_def split: sum.splits)

lemma generateCodeResponse_events:
  assumes "generateCodeResponse rt up m = (ev, p)"
  shows "filter is_fetch ev = []" and "filter is_response ev = []"
  using assms by (auto simp: generateCodeResponse_def split: sum.splits)

lemma background_catch_events:
  "filter is_fetch (background_catch rt e) = []"
  "filter is_response (background_catch rt e) = []"
  "filter is_chat (background_catch rt e) = []"
  by (auto simp: background_catch_def)

lemma createMochiCard_events:
  assumes "createMochiCard rt key up p e c = (ev, r)"
  shows "filter is_response ev = []" and "filter is_chat ev = []"
  using assms by (auto simp: createMochiCard_def split: option.splits sum.splits)

lemma background_task_no_response:
  "filter is_response (background_task rt key up message description) = []"
proof -
  obtain ev1 p1 where g1: "generateProblemDescription rt up description = (ev1, p1)"
    by (cases "generateProblemDescription rt up description")
  obtain ev2 p2 where g2: "generateCodeResponse rt up message = (ev2, p2)"
    by (cases "generateCodeResponse rt up message")
  note e1 = generateProblemDescription_events(2)[OF g1]
  note e2 = generateCodeResponse_events(2)[OF g2]
  have cm: "filter is_response ev = []" if "createMochiCard rt key up a b c = (ev, r)" for a b c ev r
    using createMochiCard_events(1)[OF that] .
  show ?thesis
    using e1 e2
    by (auto simp: background_task_def g1 g2 background_catch_events
             split: prod.splits sum.splits dest: cm)
qed

lemma cardContent_Inr:
  "cardContent rt p e c = Inr content \<Longrightarrow>
     \<exists>ps es cs. js_to_string rt p = Inr ps \<and> js_to_string rt e = Inr es \<and>
       js_to_string rt c = Inr cs \<and> content = card_template ps es cs"
  by (auto simp: cardContent_def js_plus_def card_template_def split: sum.splits)

lemma post_api_data_rejects:
  assumes "destructure_body body = Inr (message, description)"
      and "\<not> js_truthy rt message \<or> \<not> js_truthy rt description"
  shows "post_api_data rt MOCHI_API_KEY up body =
           [Response 400 (JObj [(js ''error'', JStr (js ''Message is required''))])]"
  using assms by (auto simp: post_api_data_def)

lemma post_api_data_accepts:
  assumes "destructure_body body = Inr (message, description)"
      and "js_truthy rt message" and "js_truthy rt description"
  shows "post_api_data rt MOCHI_API_KEY up body =
           Response 200 (JObj [(js ''status'', JStr (js ''submitted'')),
                               (js ''message'', JStr (js ''Now processing''))]) #
           background_task rt MOCHI_API_KEY up message description"
  using assms by (auto simp: post_api_data_def)

lemma destructure_body_object:
  "destructure_body (JObj kvs) =
     Inr (case map_of kvs (js ''message'') of None \<Rightarrow> JUndefined | Some v \<Rightarrow> v,
          case map_of kvs (js ''description'') of None \<Rightarrow> JUndefined | Some v \<Rightarrow> v)"
  by (simp add: destructure_body_def js_get_def)

lemma generateProblemDescription_string:
  "generateProblemDescription rt up (JStr d) =
     ([ChatCompletion
         \<lparr>chat_model = js ''gpt-5-mini'',
          chat_messages = [(js ''user'', problem_prompt @ d)],
          chat_response_format = None\<rparr>],
      AfterReply (case problem_reply up of Inl e \<Rightarrow> Inl e | Inr r \<Rightarrow> Inr (first_content r)))"
  by (simp add: generateProblemDescription_def js_plus_def)

lemma generateCodeResponse_string:
  "generateCodeResponse rt up (JStr m) =
     ([ChatCompletion
         \<lparr>chat_model = js ''gpt-5-mini'',
          chat_messages = [(js ''user'', code_prompt @ m)],
          chat_response_format =
            Some (JObj [(js ''type'', JStr (js ''json_schema'')),
                        (js ''json_schema'', manualJsonSchema)])\<rparr>],
      AfterReply
        (case code_reply up of
           Inl e \<Rightarrow> Inl e
         | Inr response \<Rightarrow>
             (let content = first_content response
              in if \<not> js_truthy rt content
                 then Inl (ErrorObject (js ''No content returned''))
                 else (case js_to_string rt content of
                         Inl e \<Rightarrow> Inl e
                       | Inr s \<Rightarrow> JSON_parse s))))"
  by (simp add: generateCodeResponse_def js_plus_def)

lemma background_task_strings:
  "\<exists>r1 r2 rest.
     background_task rt key up (JStr m) (JStr d) = ChatCompletion r1 # ChatCompletion r2 # rest
     \<and> chat_messages r1 = [(js ''user'', problem_prompt @ d)] \<and> chat_response_format r1 = None
     \<and> chat_messages r2 = [(js ''user'', code_prompt @ m)] \<and> chat_response_format r2 \<noteq> None"
  by (simp add: background_task_def generateProblemDescription_string
        generateCodeResponse_string)

lemma JSON_parse_cases:
  "JSON_parse s = Inl (EngineError (JSONSyntaxError s)) \<or> (\<exists>v. JSON_parse s = Inr v)"
  by (auto simp: JSON_parse_def split: option.splits list.splits)

lemma first_content_cases:
  "first_content r = JUndefined \<or> first_content r = JNull \<or> (\<exists>s. first_content r = JStr s)"
  by (auto simp: first_content_def split: list.splits chat_choice.splits option.splits
        chat_message.splits)

lemma generateCodeResponse_after_reply:
  assumes "js_to_string rt message = Inr m"
  shows "snd (generateCodeResponse rt up message) =
     AfterReply
        (case code_reply up of
           Inl e \<Rightarrow> Inl e
         | Inr response \<Rightarrow>
             (let content = first_content response
              in if \<not> js_truthy rt content
                 then Inl (ErrorObject (js ''No content returned''))
                 else (case js_to_string rt content of
                         Inl e \<Rightarrow> Inl e
                       | Inr s \<Rightarrow> JSON_parse s)))"
  using assms by (simp add: generateCodeResponse_def js_plus_def)

lemma sample_solution_parses:
  \<open>JSON_parse (js ''{"solutionExplanation":"Use a hash map","code":"return []"}'') =
     Inr (JObj [(js ''solutionExplanation'', JStr (js ''Use a hash map'')),
                (js ''code'', JStr (js ''return []''))])\<close>
  by code_simp

lemma empty_object_parses: "JSON_parse (js ''{}'') = Inr (JObj [])"
  by code_simp

lemma background_task_joined:
  assumes g1: "generateProblemDescription rt up description = (ev1, AfterReply (Inr problem))"
      and g2: "generateCodeResponse rt up message = (ev2, AfterReply (Inr solution))"
      and e: "js_get solution (js ''solutionExplanation'') = Inr explanation"
      and c: "js_get solution (js ''code'') = Inr code"
  shows "\<exists>rest. background_task rt key up message description =
           ev1 @ ev2 @ Console ConsoleLog [LText (js ''Creating Mochi card...'')] #
           fst (createMochiCard rt key up problem explanation code) @ rest"
  by (cases "createMochiCard rt key up problem explanation code")
     (simp add: background_task_def g1 g2 e c promise_all2_def)

lemma createMochiCard_with_key:
  assumes "key \<noteq> []" and "cardContent rt problem explanation code = Inr content"
  shows "fst (createMochiCard rt (Some key) up problem explanation code) =
           [Fetch
              \<lparr>fetch_url = js ''https://app.mochi.cards/api/cards/'',
               fetch_method = js ''POST'',
               fetch_headers =
                 [(js ''Content-Type'', js ''application/json''),
                  (js ''Authorization'', js ''Basic '' @ base64_utf8 rt (key @ js '':''))],
               fetch_json_body =
                 JObj [(js ''content'', JStr content),
                       (js ''deck-id'', JStr (js ''QKtBzxLx'')),
                       (js ''archived?'', JBool False)]\<rparr>]"
  using assms by (simp add: createMochiCard_def DECK_ID_def)

lemma no_content_text:
  assumes "\<not> js_truthy rt (first_content response)"
  shows "\<exists>ptext. ptext \<in> {js ''undefined'', js ''null'', []}
      \<and> js_to_string rt (first_content response) = Inr ptext"
proof -
  consider "first_content response = JUndefined" | "first_content response = JNull"
    | s where "first_content response = JStr s"
    using first_content_cases [of response] by blast
  then show ?thesis
  proof cases
    case 1
    then show ?thesis by (intro exI [of _ "js ''undefined''"]) simp
  next
    case 2
    then show ?thesis by (intro exI [of _ "js ''null''"]) simp
  next
    case 3
    with assms have "s = []" by (simp add: js_truthy_def)
    with 3 show ?thesis by (intro exI [of _ "[]"]) simp
  qed
qed

section \<open>The card sink\<close>

text \<open>
  C4. Without the card service's credential (the variable is unset, or set to the empty
  string), \<open>createMochiCard\<close> returns \<^verbatim>\<open>null\<close>, not an error, and makes no outbound call: a
  warning on the console is all it does, whatever the other inputs are.
\<close>

theorem createMochiCard_without_key:
  "createMochiCard rt None up problem explanation code =
     ([Console ConsoleWarn [LText (js ''Skipping Mochi card creation: MOCHI_API_KEY is missing.'')]],
      Inr JNull)
   \<and> createMochiCard rt (Some []) up problem explanation code =
     ([Console ConsoleWarn [LText (js ''Skipping Mochi card creation: MOCHI_API_KEY is missing.'')]],
      Inr JNull)
   \<and> filter is_outbound (fst (createMochiCard rt None up problem explanation code)) = []
   \<and> filter is_outbound (fst (createMochiCard rt (Some []) up problem explanation code)) = []"
  by (simp add: createMochiCard_def is_outbound_def)

text \<open>
  C5. The card text is a function of the three strings alone: the fixed first line, the
  problem, the separator line \<^verbatim>\<open>---\<close>, the explanation, and the code between the fence
  \<^verbatim>\<open>```python\<close> and the closing fence.
\<close>

theorem cardContent_template:
  "cardContent rt (JStr problem) (JStr explanation) (JStr code) =
     Inr (js ''What is the key techinque to solve this problem?\<newline>'' @ problem @
          js ''\<newline>---\<newline>'' @ explanation @
          js ''\<newline>'' @ js ''```python\<newline>'' @ code @ js ''\<newline>```'')"
  by (simp add: cardContent_def js_plus_def)

text \<open>
  C9. Whenever \<open>createMochiCard\<close> reaches the network, the body of its request has the deck
  identifier \<^verbatim>\<open>QKtBzxLx\<close>, the archived flag \<^verbatim>\<open>false\<close>, and a content that begins with the
  fixed first line and ends with the code fenced as \<^verbatim>\<open>python\<close>; only the three inputs,
  converted to strings, vary.
\<close>

theorem createMochiCard_request:
  assumes "Fetch r \<in> set (fst (createMochiCard rt MOCHI_API_KEY up problem explanation code))"
  shows "\<exists>ps es cs.
           js_to_string rt problem = Inr ps \<and> js_to_string rt explanation = Inr es \<and>
           js_to_string rt code = Inr cs \<and>
           fetch_json_body r =
             JObj [(js ''content'',
                    JStr (js ''What is the key techinque to solve this problem?\<newline>'' @ ps @
                          js ''\<newline>---\<newline>'' @ es @
                          js ''\<newline>```python\<newline>'' @ cs @ js ''\<newline>```'')),
                   (js ''deck-id'', JStr (js ''QKtBzxLx'')),
                   (js ''archived?'', JBool False)]"
  using assms
  by (auto simp: createMochiCard_def DECK_ID_def card_template_def js_def
           split: option.splits if_splits sum.splits dest!: cardContent_Inr)

theorem createMochiCard_request_witness:
  "\<exists>r. Fetch r \<in> set (fst (createMochiCard plain_runtime (Some (js ''key'')) sample_upstream
                               (JStr (js ''P'')) (JStr (js ''E'')) (JStr (js ''C''))))
       \<and> fetch_json_body r =
             JObj [(js ''content'',
                    JStr (js ''What is the key techinque to solve this problem?\<newline>'' @ js ''P'' @
                          js ''\<newline>---\<newline>'' @ js ''E'' @
                          js ''\<newline>```python\<newline>'' @ js ''C'' @ js ''\<newline>```'')),
                   (js ''deck-id'', JStr (js ''QKtBzxLx'')),
                   (js ''archived?'', JBool False)]"
proof -
  let ?ev = "fst (createMochiCard plain_runtime (Some (js ''key'')) sample_upstream
                    (JStr (js ''P'')) (JStr (js ''E'')) (JStr (js ''C'')))"
  have "\<exists>r. Fetch r \<in> set ?ev"
    by (simp add: createMochiCard_def cardContent_def js_plus_def)
  then obtain r where h: "Fetch r \<in> set ?ev" ..
  from createMochiCard_request [OF h] h show ?thesis by auto
qed

section \<open>The background task\<close>

text \<open>
  C3. If the structured-extraction call rejects, or the reformatting call does, the
  background task makes no request to the card service: after the two calls of the model it
  only logs the error. The result of the call that succeeded is dropped.
\<close>

theorem join_is_all_or_nothing:
  assumes "rejected (snd (generateCodeResponse rt up message))
           \<or> rejected (snd (generateProblemDescription rt up description))"
  shows "(\<exists>error. background_task rt MOCHI_API_KEY up message description =
            fst (generateProblemDescription rt up description) @
            fst (generateCodeResponse rt up message) @ background_catch rt error)
         \<and> filter is_fetch (background_task rt MOCHI_API_KEY up message description) = []"
proof -
  obtain ev1 p1 where g1: "generateProblemDescription rt up description = (ev1, p1)"
    by (cases "generateProblemDescription rt up description")
  obtain ev2 p2 where g2: "generateCodeResponse rt up message = (ev2, p2)"
    by (cases "generateCodeResponse rt up message")
  from assms g1 g2 have "rejected p1 \<or> rejected p2" by auto
  then obtain error where pa: "promise_all2 (code_settles_first up) p1 p2 = Inl error"
    using promise_all2_rejected by blast
  have bt: "background_task rt MOCHI_API_KEY up message description =
          ev1 @ ev2 @ background_catch rt error"
    by (simp add: background_task_def g1 g2 pa)
  have "filter is_fetch ev1 = []" "filter is_fetch ev2 = []"
    using generateProblemDescription_events(1)[OF g1] generateCodeResponse_events(1)[OF g2]
    by simp_all
  then show ?thesis using bt g1 g2 by (auto simp: background_catch_events)
qed

theorem join_is_all_or_nothing_witness:
  "rejected (snd (generateCodeResponse plain_runtime
                    (sample_upstream\<lparr>code_reply := Inl (ErrorObject (js ''429 Too Many Requests''))\<rparr>)
                    (JStr (js ''two sum solution''))))
   \<and> \<not> rejected (snd (generateProblemDescription plain_runtime
                    (sample_upstream\<lparr>code_reply := Inl (ErrorObject (js ''429 Too Many Requests''))\<rparr>)
                    (JStr (js ''Given an array''))))
   \<and> filter is_fetch
        (background_task plain_runtime (Some (js ''key''))
           (sample_upstream\<lparr>code_reply := Inl (ErrorObject (js ''429 Too Many Requests''))\<rparr>)
           (JStr (js ''two sum solution'')) (JStr (js ''Given an array''))) = []"
proof -
  let ?up = "sample_upstream\<lparr>code_reply := Inl (ErrorObject (js ''429 Too Many Requests''))\<rparr>"
  have h: "rejected (snd (generateCodeResponse plain_runtime ?up (JStr (js ''two sum solution''))))"
    by (simp add: generateCodeResponse_def js_plus_def)
  have n: "\<not> rejected (snd (generateProblemDescription plain_runtime ?up (JStr (js ''Given an array''))))"
    by (simp add: generateProblemDescription_def js_plus_def sample_upstream_def)
  from join_is_all_or_nothing [where MOCHI_API_KEY = "Some (js ''key'')"
         and description = "JStr (js ''Given an array'')", OF disjI1 [OF h]]
  show ?thesis using h n by blast
qed

text \<open>
  C8. When the reformatting call's reply holds no content (no choice, no message, a
  \<^verbatim>\<open>null\<close> or an empty content), \<open>generateProblemDescription\<close> resolves with \<^verbatim>\<open>undefined\<close>,
  \<^verbatim>\<open>null\<close> or the empty string, and the background task goes on: with a solution that has
  its two strings it logs \<^verbatim>\<open>Creating Mochi card...\<close> and calls \<open>createMochiCard\<close> with that
  problem text, whose card text then holds \<^verbatim>\<open>undefined\<close>, \<^verbatim>\<open>null\<close> or nothing where the
  problem would stand; with a credential the request is sent.
\<close>

theorem missing_problem_text_is_tolerated:
  assumes "problem_reply up = Inr response"
      and "\<not> js_truthy rt (first_content response)"
      and "js_to_string rt description = Inr d"
      and "snd (generateCodeResponse rt up message) = AfterReply (Inr solution)"
      and "js_get solution (js ''solutionExplanation'') = Inr (JStr explanation)"
      and "js_get solution (js ''code'') = Inr (JStr code)"
  shows "snd (generateProblemDescription rt up description) =
           AfterReply (Inr (first_content response))
         \<and> (\<exists>ptext. ptext \<in> {js ''undefined'', js ''null'', []}
               \<and> js_to_string rt (first_content response) = Inr ptext
               \<and> cardContent rt (first_content response) (JStr explanation) (JStr code) =
                   Inr (card_template ptext explanation code)
               \<and> (\<exists>rest. background_task rt MOCHI_API_KEY up message description =
                     fst (generateProblemDescription rt up description) @
                     fst (generateCodeResponse rt up message) @
                     Console ConsoleLog [LText (js ''Creating Mochi card...'')] #
                     fst (createMochiCard rt MOCHI_API_KEY up (first_content response)
                            (JStr explanation) (JStr code)) @ rest)
               \<and> (\<forall>key. MOCHI_API_KEY = Some key \<and> key \<noteq> [] \<longrightarrow>
                     (\<exists>r. Fetch r \<in> set (background_task rt MOCHI_API_KEY up message description)
                        \<and> fetch_json_body r =
                            JObj [(js ''content'', JStr (card_template ptext explanation code)),
                                  (js ''deck-id'', JStr (js ''QKtBzxLx'')),
                                  (js ''archived?'', JBool False)])))"
proof -
  obtain ev1 where g1: "generateProblemDescription rt up description =
                          (ev1, AfterReply (Inr (first_content response)))"
    using assms(1,3) by (simp add: generateProblemDescription_def js_plus_def)
  obtain ev2 where g2: "generateCodeResponse rt up message = (ev2, AfterReply (Inr solution))"
    using assms(4) by (cases "generateCodeResponse rt up message") simp
  obtain ptext where t: "ptext \<in> {js ''undefined'', js ''null'', []}"
      and ts: "js_to_string rt (first_content response) = Inr ptext"
    using no_content_text [OF assms(2)] by blast
  have cc: "cardContent rt (first_content response) (JStr explanation) (JStr code) =
              Inr (card_template ptext explanation code)"
    using ts by (simp add: cardContent_def js_plus_def card_template_def)
  from background_task_joined [OF g1 g2 assms(5,6), of MOCHI_API_KEY]
  obtain rest where bt: "background_task rt MOCHI_API_KEY up message description =
       ev1 @ ev2 @ Console ConsoleLog [LText (js ''Creating Mochi card...'')] #
       fst (createMochiCard rt MOCHI_API_KEY up (first_content response)
              (JStr explanation) (JStr code)) @ rest"
    by blast
  have fetch: "\<exists>r. Fetch r \<in> set (background_task rt MOCHI_API_KEY up message description)
                 \<and> fetch_json_body r =
                     JObj [(js ''content'', JStr (card_template ptext explanation code)),
                           (js ''deck-id'', JStr (js ''QKtBzxLx'')),
                           (js ''archived?'', JBool False)]"
    if k: "MOCHI_API_KEY = Some key \<and> key \<noteq> []" for key
  proof -
    from k have k1: "MOCHI_API_KEY = Some key" and k2: "key \<noteq> []" by simp_all
    let ?r = "\<lparr>fetch_url = js ''https://app.mochi.cards/api/cards/'',
               fetch_method = js ''POST'',
               fetch_headers =
                 [(js ''Content-Type'', js ''application/json''),
                  (js ''Authorization'', js ''Basic '' @ base64_utf8 rt (key @ js '':''))],
               fetch_json_body =
                 JObj [(js ''content'', JStr (card_template ptext explanation code)),
                       (js ''deck-id'', JStr (js ''QKtBzxLx'')),
                       (js ''archived?'', JBool False)]\<rparr>"
    have "fst (createMochiCard rt MOCHI_API_KEY up (first_content response)
                 (JStr explanation) (JStr code)) = [Fetch ?r]"
      unfolding k1 by (rule createMochiCard_with_key [OF k2 cc])
    then have "Fetch ?r \<in> set (background_task rt MOCHI_API_KEY up message description)"
      by (simp add: bt)
    moreover have "fetch_json_body ?r =
                JObj [(js ''content'', JStr (card_template ptext explanation code)),
                      (js ''deck-id'', JStr (js ''QKtBzxLx'')),
                      (js ''archived?'', JBool False)]"
      by simp
    ultimately show ?thesis by (intro exI [of _ ?r] conjI)
  qed
  have s1: "snd (generateProblemDescription rt up description) =
              AfterReply (Inr (first_content response))"
    by (simp only: g1 snd_conv)
  have s2: "\<exists>rest. background_task rt MOCHI_API_KEY up message description =
              fst (generateProblemDescription rt up description) @
              fst (generateCodeResponse rt up message) @
              Console ConsoleLog [LText (js ''Creating Mochi card...'')] #
              fst (createMochiCard rt MOCHI_API_KEY up (first_content response)
                     (JStr explanation) (JStr code)) @ rest"
    unfolding g1 g2 fst_conv using bt by (rule exI)
  have s3: "\<forall>key. MOCHI_API_KEY = Some key \<and> key \<noteq> [] \<longrightarrow>
              (\<exists>r. Fetch r \<in> set (background_task rt MOCHI_API_KEY up message description)
                 \<and> fetch_json_body r =
                     JObj [(js ''content'', JStr (card_template ptext explanation code)),
                           (js ''deck-id'', JStr (js ''QKtBzxLx'')),
                           (js ''archived?'', JBool False)])"
    using fetch by (intro allI impI)
  from s1 t ts cc s2 s3 show ?thesis
    by (intro conjI exI [of _ ptext])
qed

theorem missing_problem_text_is_tolerated_witness:
  "problem_reply (sample_upstream\<lparr>problem_reply := Inr []\<rparr>) = Inr []
   \<and> \<not> js_truthy plain_runtime (first_content [])
   \<and> js_to_string plain_runtime (JStr (js ''Given an array'')) = Inr (js ''Given an array'')
   \<and> snd (generateCodeResponse plain_runtime (sample_upstream\<lparr>problem_reply := Inr []\<rparr>)
            (JStr (js ''two sum solution''))) =
       AfterReply (Inr (JObj [(js ''solutionExplanation'', JStr (js ''Use a hash map'')),
                              (js ''code'', JStr (js ''return []''))]))
   \<and> snd (generateProblemDescription plain_runtime (sample_upstream\<lparr>problem_reply := Inr []\<rparr>)
            (JStr (js ''Given an array''))) = AfterReply (Inr JUndefined)
   \<and> (\<exists>r. Fetch r \<in> set (background_task plain_runtime (Some (js ''key''))
                             (sample_upstream\<lparr>problem_reply := Inr []\<rparr>)
                             (JStr (js ''two sum solution'')) (JStr (js ''Given an array'')))
          \<and> fetch_json_body r =
              JObj [(js ''content'',
                     JStr (card_template (js ''undefined'') (js ''Use a hash map'')
                             (js ''return []''))),
                    (js ''deck-id'', JStr (js ''QKtBzxLx'')),
                    (js ''archived?'', JBool False)])"
proof -
  let ?up = "sample_upstream\<lparr>problem_reply := Inr []\<rparr>"
  let ?sol = "JObj [(js ''solutionExplanation'', JStr (js ''Use a hash map'')),
                    (js ''code'', JStr (js ''return []''))]"
  have a1: "problem_reply ?up = Inr []" by simp
  have a2: "\<not> js_truthy plain_runtime (first_content [])"
    by (simp add: first_content_def js_truthy_def)
  have a3: "js_to_string plain_runtime (JStr (js ''Given an array'')) = Inr (js ''Given an array'')"
    by simp
  have a4: "snd (generateCodeResponse plain_runtime ?up (JStr (js ''two sum solution''))) =
              AfterReply (Inr ?sol)"
    by (simp add: generateCodeResponse_string sample_upstream_def first_content_def
          js_truthy_def sample_solution_parses)
  have a5: "js_get ?sol (js ''solutionExplanation'') = Inr (JStr (js ''Use a hash map''))"
    by (simp add: js_get_def)
  have a6: "js_get ?sol (js ''code'') = Inr (JStr (js ''return []''))"
    by (simp add: js_get_def)
  have f: "first_content [] = JUndefined" by (simp add: first_content_def)
  from missing_problem_text_is_tolerated [OF a1 a2 a3 a4 a5 a6, of "Some (js ''key'')"]
  show ?thesis
    using a1 a2 a3 a4 by (auto simp: f)
qed

section \<open>Structured extraction\<close>

text \<open>
  C2, as the code has it. Once the model has replied, \<open>generateCodeResponse\<close> fails with
  \<^verbatim>\<open>No content returned\<close> when the reply holds no content, and otherwise settles to what
  \<^verbatim>\<open>JSON.parse\<close> makes of the content: a \<^verbatim>\<open>SyntaxError\<close> when the content is not JSON text,
  the parsed value when it is. The call itself does not look for the two fields.
\<close>

theorem generateCodeResponse_result:
  assumes "code_reply up = Inr response" and "js_to_string rt message = Inr m"
  shows "(\<not> js_truthy rt (first_content response) \<longrightarrow>
            snd (generateCodeResponse rt up message) =
              AfterReply (Inl (ErrorObject (js ''No content returned''))))
         \<and> (\<forall>s. first_content response = JStr s \<and> s \<noteq> [] \<longrightarrow>
               snd (generateCodeResponse rt up message) = AfterReply (JSON_parse s)
               \<and> (JSON_parse s = Inl (EngineError (JSONSyntaxError s))
                    \<or> (\<exists>v. JSON_parse s = Inr v)))"
  using assms JSON_parse_cases
  by (auto simp: generateCodeResponse_after_reply [OF assms(2)] js_truthy_def)

theorem generateCodeResponse_result_witness:
  \<open>code_reply sample_upstream =
     Inr [ChatChoice (Some (ChatMessage (Some
            (js ''{"solutionExplanation":"Use a hash map","code":"return []"}''))))]
   \<and> js_to_string plain_runtime (JStr (js ''two sum solution'')) = Inr (js ''two sum solution'')
   \<and> snd (generateCodeResponse plain_runtime sample_upstream (JStr (js ''two sum solution''))) =
       AfterReply (Inr (JObj [(js ''solutionExplanation'', JStr (js ''Use a hash map'')),
                              (js ''code'', JStr (js ''return []''))]))\<close>
proof -
  have c: \<open>code_reply sample_upstream =
     Inr [ChatChoice (Some (ChatMessage (Some
            (js ''{"solutionExplanation":"Use a hash map","code":"return []"}''))))]\<close>
    by (simp add: sample_upstream_def)
  have m: "js_to_string plain_runtime (JStr (js ''two sum solution'')) = Inr (js ''two sum solution'')"
    by simp
  have f: \<open>first_content [ChatChoice (Some (ChatMessage (Some
            (js ''{"solutionExplanation":"Use a hash map","code":"return []"}''))))] =
           JStr (js ''{"solutionExplanation":"Use a hash map","code":"return []"}'')\<close>
    by (simp add: first_content_def)
  from generateCodeResponse_result [OF c m] f sample_solution_parses c m
  show ?thesis by simp
qed

text \<open>
  The claim C2 as stated fails: the content \<^verbatim>\<open>{}\<close> is JSON text without either field,
  and the call returns the empty object.
\<close>

theorem generateCodeResponse_accepts_missing_fields:
  "snd (generateCodeResponse plain_runtime
          (sample_upstream\<lparr>code_reply := Inr [ChatChoice (Some (ChatMessage (Some (js ''{}''))))]\<rparr>)
          (JStr (js ''two sum solution''))) = AfterReply (Inr (JObj []))
   \<and> js_get (JObj []) (js ''solutionExplanation'') = Inr JUndefined
   \<and> js_get (JObj []) (js ''code'') = Inr JUndefined"
  by (simp add: generateCodeResponse_string first_content_def js_truthy_def
        empty_object_parses js_get_def)

section \<open>The endpoint\<close>

text \<open>
  C1, as the code has it. A submission whose \<^verbatim>\<open>message\<close> or \<^verbatim>\<open>description\<close> is the empty
  string gets the validation error and nothing else happens: no outbound call is made.
\<close>

theorem empty_field_is_rejected:
  assumes "map_of kvs (js ''message'') = Some (JStr [])
           \<or> map_of kvs (js ''description'') = Some (JStr [])"
  shows "post_api_data rt MOCHI_API_KEY up (JObj kvs) =
           [Response 400 (JObj [(js ''error'', JStr (js ''Message is required''))])]
         \<and> filter is_outbound (post_api_data rt MOCHI_API_KEY up (JObj kvs)) = []"
proof -
  have "post_api_data rt MOCHI_API_KEY up (JObj kvs) =
           [Response 400 (JObj [(js ''error'', JStr (js ''Message is required''))])]"
    by (rule post_api_data_rejects [OF destructure_body_object])
       (use assms in \<open>auto simp: js_truthy_def\<close>)
  then show ?thesis by (simp add: is_outbound_def)
qed

theorem empty_field_is_rejected_witness:
  "map_of [(js ''message'', JStr []), (js ''description'', JStr (js ''x''))] (js ''message'')
     = Some (JStr [])
   \<and> post_api_data plain_runtime None sample_upstream
         (JObj [(js ''message'', JStr []), (js ''description'', JStr (js ''x''))]) =
       [Response 400 (JObj [(js ''error'', JStr (js ''Message is required''))])]"
proof -
  have h: "map_of [(js ''message'', JStr []), (js ''description'', JStr (js ''x''))] (js ''message'')
             = Some (JStr [])"
    by simp
  from empty_field_is_rejected [OF disjI1 [OF h]] h show ?thesis by blast
qed

text \<open>
  The claim C1 as stated fails for a text of blanks: the endpoint tests \<^verbatim>\<open>!message\<close>, it
  does not trim, so the submission is acknowledged and the model is called.
\<close>

theorem whitespace_only_message_is_accepted:
  "post_api_data plain_runtime None sample_upstream
     (JObj [(js ''message'', JStr (js ''   '')), (js ''description'', JStr (js ''x''))]) \<noteq>
     [Response 400 (JObj [(js ''error'', JStr (js ''Message is required''))])]
   \<and> filter is_response
        (post_api_data plain_runtime None sample_upstream
           (JObj [(js ''message'', JStr (js ''   '')), (js ''description'', JStr (js ''x''))])) =
       [Response 200 (JObj [(js ''status'', JStr (js ''submitted'')),
                            (js ''message'', JStr (js ''Now processing''))])]
   \<and> filter is_outbound
        (post_api_data plain_runtime None sample_upstream
           (JObj [(js ''message'', JStr (js ''   '')), (js ''description'', JStr (js ''x''))])) \<noteq> []"
proof -
  let ?body = "JObj [(js ''message'', JStr (js ''   '')), (js ''description'', JStr (js ''x''))]"
  have d: "destructure_body ?body = Inr (JStr (js ''   ''), JStr (js ''x''))"
    by (simp add: destructure_body_object)
  have t: "js_truthy plain_runtime (JStr (js ''   ''))" "js_truthy plain_runtime (JStr (js ''x''))"
    by (simp_all add: js_truthy_def)
  note p = post_api_data_accepts [OF d t, of None sample_upstream]
  obtain r1 r2 rest where
    b: "background_task plain_runtime None sample_upstream (JStr (js ''   '')) (JStr (js ''x''))
          = ChatCompletion r1 # ChatCompletion r2 # rest"
    using background_task_strings by blast
  show ?thesis
    using background_task_no_response
            [of plain_runtime None sample_upstream "JStr (js ''   '')" "JStr (js ''x'')"]
    unfolding p b by (simp add: is_outbound_def)
qed

text \<open>
  C6. A request whose body lacks \<^verbatim>\<open>message\<close> or \<^verbatim>\<open>description\<close> is answered with status
  400 and \<^verbatim>\<open>{error: "Message is required"}\<close>, and that response is all the request causes:
  the background task is not started.
\<close>

theorem absent_field_is_rejected:
  assumes "body \<noteq> JUndefined" and "body \<noteq> JNull"
      and "js_get body (js ''message'') = Inr JUndefined
           \<or> js_get body (js ''description'') = Inr JUndefined"
  shows "post_api_data rt MOCHI_API_KEY up body =
           [Response 400 (JObj [(js ''error'', JStr (js ''Message is required''))])]"
proof -
  obtain message description where d: "destructure_body body = Inr (message, description)"
    and g: "js_get body (js ''message'') = Inr message"
           "js_get body (js ''description'') = Inr description"
    using assms(1,2) by (cases body) (auto simp: destructure_body_def js_get_def)
  with assms(3) have "\<not> js_truthy rt message \<or> \<not> js_truthy rt description"
    by (auto simp: js_truthy_def)
  from post_api_data_rejects [OF d this] show ?thesis .
qed

theorem absent_field_is_rejected_witness:
  "JObj [(js ''message'', JStr (js ''two sum solution''))] \<noteq> JUndefined
   \<and> JObj [(js ''message'', JStr (js ''two sum solution''))] \<noteq> JNull
   \<and> js_get (JObj [(js ''message'', JStr (js ''two sum solution''))]) (js ''description'')
       = Inr JUndefined
   \<and> post_api_data plain_runtime (Some (js ''key'')) sample_upstream
         (JObj [(js ''message'', JStr (js ''two sum solution''))]) =
       [Response 400 (JObj [(js ''error'', JStr (js ''Message is required''))])]"
proof -
  let ?body = "JObj [(js ''message'', JStr (js ''two sum solution''))]"
  have a: "?body \<noteq> JUndefined" and b: "?body \<noteq> JNull" by simp_all
  have c: "js_get ?body (js ''description'') = Inr JUndefined"
    by (simp add: js_get_def)
  from absent_field_is_rejected [OF a b disjI2 [OF c]] a b c show ?thesis by blast
qed

text \<open>
  C7. A submission that passes the validation is answered with status 200 and
  \<^verbatim>\<open>{status: "submitted", message: "Now processing"}\<close>: that is the first effect of the
  request and its only response, whatever the three services do.
\<close>

theorem valid_submission_is_acknowledged:
  assumes "destructure_body body = Inr (message, description)"
      and "js_truthy rt message" and "js_truthy rt description"
  shows "\<forall>up. (\<exists>rest. post_api_data rt MOCHI_API_KEY up body =
                  Response 200 (JObj [(js ''status'', JStr (js ''submitted'')),
                                      (js ''message'', JStr (js ''Now processing''))]) # rest)
            \<and> filter is_response (post_api_data rt MOCHI_API_KEY up body) =
                  [Response 200 (JObj [(js ''status'', JStr (js ''submitted'')),
                                       (js ''message'', JStr (js ''Now processing''))])]"
  by (simp add: post_api_data_accepts [OF assms] background_task_no_response)

theorem valid_submission_is_acknowledged_witness:
  "destructure_body
     (JObj [(js ''message'', JStr (js ''two sum solution...'')),
            (js ''description'', JStr (js ''Given an array...''))]) =
     Inr (JStr (js ''two sum solution...''), JStr (js ''Given an array...''))
   \<and> js_truthy plain_runtime (JStr (js ''two sum solution...''))
   \<and> js_truthy plain_runtime (JStr (js ''Given an array...''))
   \<and> filter is_response
        (post_api_data plain_runtime (Some (js ''key''))
           (sample_upstream\<lparr>problem_reply := Inl (ErrorObject (js ''timeout''))\<rparr>)
           (JObj [(js ''message'', JStr (js ''two sum solution...'')),
                  (js ''description'', JStr (js ''Given an array...''))])) =
       [Response 200 (JObj [(js ''status'', JStr (js ''submitted'')),
                            (js ''message'', JStr (js ''Now processing''))])]"
proof -
  let ?body = "JObj [(js ''message'', JStr (js ''two sum solution...'')),
                     (js ''description'', JStr (js ''Given an array...''))]"
  have d: "destructure_body ?body =
             Inr (JStr (js ''two sum solution...''), JStr (js ''Given an array...''))"
    by (simp add: destructure_body_object)
  have t: "js_truthy plain_runtime (JStr (js ''two sum solution...''))"
          "js_truthy plain_runtime (JStr (js ''Given an array...''))"
    by (simp_all add: js_truthy_def)
  from valid_submission_is_acknowledged [OF d t, of "Some (js ''key'')"] d t
  show ?thesis by blast
qed

text \<open>
  C10. For a submission that passes the validation, every outbound call of the run comes
  after the acknowledgment: whatever precedes a call in the run contains the response. For
  two strings both calls of the model are made right after it, the reformatting call first.
\<close>

theorem acknowledgment_precedes_model_calls:
  assumes "destructure_body body = Inr (message, description)"
      and "js_truthy rt message" and "js_truthy rt description"
  shows "(\<forall>before e after.
            post_api_data rt MOCHI_API_KEY up body = before @ e # after \<and> is_outbound e \<longrightarrow>
            Response 200 (JObj [(js ''status'', JStr (js ''submitted'')),
                                (js ''message'', JStr (js ''Now processing''))]) \<in> set before)
         \<and> (\<forall>m d. message = JStr m \<and> description = JStr d \<longrightarrow>
              (\<exists>r1 r2 rest.
                 post_api_data rt MOCHI_API_KEY up body =
                   Response 200 (JObj [(js ''status'', JStr (js ''submitted'')),
                                       (js ''message'', JStr (js ''Now processing''))]) #
                   ChatCompletion r1 # ChatCompletion r2 # rest
                 \<and> chat_messages r1 = [(js ''user'', problem_prompt @ d)]
                 \<and> chat_messages r2 = [(js ''user'', code_prompt @ m)]))"
proof (intro conjI allI impI)
  fix before e after
  assume a: "post_api_data rt MOCHI_API_KEY up body = before @ e # after \<and> is_outbound e"
  let ?ack = "Response 200 (JObj [(js ''status'', JStr (js ''submitted'')),
                                  (js ''message'', JStr (js ''Now processing''))])"
  from a post_api_data_accepts [OF assms, of MOCHI_API_KEY up]
  have eq: "before @ e # after = ?ack # background_task rt MOCHI_API_KEY up message description"
    by simp
  show "?ack \<in> set before"
  proof (cases before)
    case Nil
    with eq have "e = ?ack" by simp
    with a show ?thesis by (simp add: is_outbound_def)
  next
    case (Cons x xs)
    with eq show ?thesis by simp
  qed
next
  fix m d
  assume "message = JStr m \<and> description = JStr d"
  then show "\<exists>r1 r2 rest.
       post_api_data rt MOCHI_API_KEY up body =
         Response 200 (JObj [(js ''status'', JStr (js ''submitted'')),
                             (js ''message'', JStr (js ''Now processing''))]) #
         ChatCompletion r1 # ChatCompletion r2 # rest
       \<and> chat_messages r1 = [(js ''user'', problem_prompt @ d)]
       \<and> chat_messages r2 = [(js ''user'', code_prompt @ m)]"
    using post_api_data_accepts [OF assms, of MOCHI_API_KEY up]
          background_task_strings [of rt MOCHI_API_KEY up m d]
    by auto
qed

theorem acknowledgment_precedes_model_calls_witness:
  "destructure_body
     (JObj [(js ''message'', JStr (js ''two sum solution...'')),
            (js ''description'', JStr (js ''Given an array...''))]) =
     Inr (JStr (js ''two sum solution...''), JStr (js ''Given an array...''))
   \<and> js_truthy plain_runtime (JStr (js ''two sum solution...''))
   \<and> js_truthy plain_runtime (JStr (js ''Given an array...''))
   \<and> (\<exists>r1 r2 rest.
         post_api_data plain_runtime (Some (js ''key'')) sample_upstream
           (JObj [(js ''message'', JStr (js ''two sum solution...'')),
                  (js ''description'', JStr (js ''Given an array...''))]) =
           Response 200 (JObj [(js ''status'', JStr (js ''submitted'')),
                               (js ''message'', JStr (js ''Now processing''))]) #
           ChatCompletion r1 # ChatCompletion r2 # rest
         \<and> chat_messages r1 = [(js ''user'', problem_prompt @ js ''Given an array...'')]
         \<and> chat_messages r2 = [(js ''user'', code_prompt @ js ''two sum solution...'')])"
proof -
  let ?body = "JObj [(js ''message'', JStr (js ''two sum solution...'')),
                     (js ''description'', JStr (js ''Given an array...''))]"
  have d: "destructure_body ?body =
             Inr (JStr (js ''two sum solution...''), JStr (js ''Given an array...''))"
    by (simp add: destructure_body_object)
  have t: "js_truthy plain_runtime (JStr (js ''two sum solution...''))"
          "js_truthy plain_runtime (JStr (js ''Given an array...''))"
    by (simp_all add: js_truthy_def)
  from acknowledgment_precedes_model_calls
         [OF d t, of "Some (js ''key'')" sample_upstream] d t
  show ?thesis by blast
qed

end
